theory Spec2Isabelle
  imports Main "HOL-Library.Word"
begin

unbundle bit_operations_syntax

section \<open>fs/sync.c: data model\<close>

text \<open>
  The file is sequential C that calls into the rest of the kernel. Every call that leaves
  the file is written to a trace, in program order, together with the value it returned;
  the returned values come from an oracle that may look at the whole trace so far, so two
  calls with the same arguments may answer differently. Memory barriers (\<open>smp_mb\<close>) and
  the assertions \<open>WARN_ON\<close>, \<open>WARN_ON_ONCE\<close> have no effect on the values computed
  and are not part of the model; what the two assertions of \<open>sys_sync\<close> check is proved
  as a lemma instead.
\<close>

type_synonym loff_t = "64 word"   \<comment> \<open>\<open>long long\<close>, read with \<open>sint\<close>\<close>
type_synonym uint = "32 word"     \<comment> \<open>\<open>unsigned int\<close>\<close>
type_synonym umode_t = "16 word"  \<comment> \<open>\<open>unsigned short\<close>\<close>

text \<open>
  Modelled from the spec: the constants below are named by the source but declared in
  kernel headers that are not under src/. The spec names the error codes (EINVAL, EBADF,
  ESPIPE), the three range flags and the file kinds; the numbers are those of the Linux
  ABI.
\<close>

definition EBADF :: int where "EBADF = 9"
definition EINVAL :: int where "EINVAL = 22"
definition ESPIPE :: int where "ESPIPE = 29"

definition SYNC_FILE_RANGE_WAIT_BEFORE :: uint where "SYNC_FILE_RANGE_WAIT_BEFORE = 1"
definition SYNC_FILE_RANGE_WRITE :: uint where "SYNC_FILE_RANGE_WRITE = 2"
definition SYNC_FILE_RANGE_WAIT_AFTER :: uint where "SYNC_FILE_RANGE_WAIT_AFTER = 4"

definition MS_RDONLY :: uint where "MS_RDONLY = 1"

definition LLONG_MAX :: loff_t where "LLONG_MAX = 0x7FFFFFFFFFFFFFFF"

definition S_IFMT :: umode_t where "S_IFMT = 0xF000"
definition S_IFLNK :: umode_t where "S_IFLNK = 0xA000"
definition S_IFREG :: umode_t where "S_IFREG = 0x8000"
definition S_IFBLK :: umode_t where "S_IFBLK = 0x6000"
definition S_IFDIR :: umode_t where "S_IFDIR = 0x4000"
definition S_IFIFO :: umode_t where "S_IFIFO = 0x1000"

definition S_ISREG :: "umode_t \<Rightarrow> bool" where "S_ISREG m \<longleftrightarrow> m AND S_IFMT = S_IFREG"
definition S_ISBLK :: "umode_t \<Rightarrow> bool" where "S_ISBLK m \<longleftrightarrow> m AND S_IFMT = S_IFBLK"
definition S_ISDIR :: "umode_t \<Rightarrow> bool" where "S_ISDIR m \<longleftrightarrow> m AND S_IFMT = S_IFDIR"
definition S_ISLNK :: "umode_t \<Rightarrow> bool" where "S_ISLNK m \<longleftrightarrow> m AND S_IFMT = S_IFLNK"

text \<open>The macro \<open>VALID_FLAGS\<close> of the file itself.\<close>

definition VALID_FLAGS :: uint where
  "VALID_FLAGS = (SYNC_FILE_RANGE_WAIT_BEFORE OR SYNC_FILE_RANGE_WRITE OR
                  SYNC_FILE_RANGE_WAIT_AFTER)"

text \<open>
  Modelled from the spec: \<open>ULONG_CMP_GE\<close> is a macro of a header that is not under
  src/. The spec describes it: greater-or-equal on the counter ring, computed by reading
  the difference of the two unsigned values as a signed number.
\<close>

definition ULONG_CMP_GE :: "'l::len word \<Rightarrow> 'l word \<Rightarrow> bool" where
  "ULONG_CMP_GE a b \<longleftrightarrow> 0 \<le> sint (a - b)"

text \<open>What the build fixes: the \<open>#ifdef\<close> of the file and two target constants.\<close>

record config =
  CONFIG_DYNAMIC_FSYNC :: bool   \<comment> \<open>the \<open>#ifdef CONFIG_DYNAMIC_FSYNC\<close> blocks are compiled in\<close>
  sizeof_pgoff_t :: nat          \<comment> \<open>\<open>sizeof(pgoff_t)\<close>\<close>
  PAGE_CACHE_SHIFT :: nat

record quotactl_ops =
  quota_sync :: bool             \<comment> \<open>the function pointer is not NULL\<close>

record super_block =
  s_id :: nat
  s_bdi_noop :: bool             \<comment> \<open>\<open>sb->s_bdi == &noop_backing_dev_info\<close>\<close>
  s_flags :: uint                \<comment> \<open>only the \<open>MS_RDONLY\<close> bit is read\<close>
  s_qcop :: "quotactl_ops option"
  s_op_sync_fs :: bool           \<comment> \<open>\<open>sb->s_op->sync_fs\<close> is not NULL\<close>
  s_bdev :: "nat option"

record file_operations =
  fsync :: bool                  \<comment> \<open>the function pointer is not NULL\<close>

record struct_file =
  f_id :: nat
  f_op :: "file_operations option"
  d_sb :: super_block            \<comment> \<open>\<open>file->f_dentry->d_sb\<close>\<close>
  i_mode :: umode_t              \<comment> \<open>\<open>file->f_path.dentry->d_inode->i_mode\<close>\<close>
  f_mapping :: "nat option"

text \<open>Calls out of the file that return an \<open>int\<close> the file may look at.\<close>

datatype call =
    Quota_sync nat int int                  \<comment> \<open>\<open>sb->s_qcop->quota_sync(sb, type, wait)\<close>\<close>
  | Sync_fs nat int                         \<comment> \<open>\<open>sb->s_op->sync_fs(sb, wait)\<close>\<close>
  | Sync_blockdev "nat option" int          \<comment> \<open>\<open>__sync_blockdev(sb->s_bdev, wait)\<close>\<close>
  | Filemap_fdatawait_range nat loff_t loff_t
  | Filemap_fdatawrite_range nat loff_t loff_t
  | F_op_fsync nat loff_t loff_t int        \<comment> \<open>\<open>file->f_op->fsync(file, start, end, datasync)\<close>\<close>

datatype work_fn = Do_sync_work

text \<open>Calls out of the file that return nothing, and the writes to \<open>sync_seq\<close>.\<close>

datatype action =
    Sync_inodes_sb nat
  | Writeback_inodes_sb nat
  | Wakeup_flusher_threads
  | Laptop_sync_completion
  | Trace_sys_sync
  | Trace_sys_sync_done
  | Trace_vfs_fsync nat
  | Trace_vfs_fsync_done nat
  | Mutex_lock
  | Mutex_unlock
  | Sync_seq_write nat                      \<comment> \<open>\<open>ACCESS_ONCE(sync_seq)++\<close>, with the value written\<close>
  | Down_read nat
  | Up_read nat
  | Fget nat
  | Fput nat
  | Kmalloc_work
  | Schedule_work work_fn
  | Kfree_work
  | Printk string

datatype event = Ret call int | Act action

text \<open>The rest of the kernel, as far as the file reads it.\<close>

record env =
  ext_ret :: "event list \<Rightarrow> call \<Rightarrow> int"   \<comment> \<open>what a call returns, given the trace so far\<close>
  fd_table :: "int \<Rightarrow> struct_file option"          \<comment> \<open>\<open>fget\<close>, \<open>fget_light\<close>\<close>
  supers :: "super_block list"               \<comment> \<open>the mounted volumes, in \<open>iterate_supers\<close> order\<close>
  kmalloc_ok :: bool                         \<comment> \<open>\<open>kmalloc(.., GFP_ATOMIC)\<close> is not NULL\<close>
  laptop_mode :: int
  vfs_emergency_remount :: int
  dyn_fsync_active :: bool
  early_suspend_active :: bool
  ktime_get :: "event list \<Rightarrow> int"          \<comment> \<open>the clock in ns, given the trace so far\<close>

definition ext :: "env \<Rightarrow> call \<Rightarrow> event list \<Rightarrow> int \<times> event list" where
  "ext e c tr = (let r = ext_ret e tr c in (r, tr @ [Ret c r]))"

definition act :: "action \<Rightarrow> event list \<Rightarrow> event list" where
  "act a tr = tr @ [Act a]"

text \<open>
  The test \<open>dyn_fsync_active && !early_suspend_active\<close>, which exists only in a build
  with \<open>CONFIG_DYNAMIC_FSYNC\<close>.
\<close>

definition fsync_suppressed :: "config \<Rightarrow> env \<Rightarrow> bool" where
  "fsync_suppressed cfg e \<longleftrightarrow>
     CONFIG_DYNAMIC_FSYNC cfg \<and> dyn_fsync_active e \<and> \<not> early_suspend_active e"

section \<open>Volume flush\<close>

text \<open>\<open>__sync_filesystem\<close> (an Isabelle name cannot start with an underscore).\<close>

definition uu_sync_filesystem :: "env \<Rightarrow> super_block \<Rightarrow> int \<Rightarrow> event list \<Rightarrow> int \<times> event list" where
  "uu_sync_filesystem e sb wait tr =
     (if s_bdi_noop sb then (0, tr)
      else
        let tr1 = (case s_qcop sb of
                     None \<Rightarrow> tr
                   | Some q \<Rightarrow> if quota_sync q
                               then snd (ext e (Quota_sync (s_id sb) (- 1) wait) tr)
                               else tr);
            tr2 = (if wait \<noteq> 0 then act (Sync_inodes_sb (s_id sb)) tr1
                   else act (Writeback_inodes_sb (s_id sb)) tr1);
            tr3 = (if s_op_sync_fs sb then snd (ext e (Sync_fs (s_id sb) wait) tr2) else tr2)
        in ext e (Sync_blockdev (s_bdev sb) wait) tr3)"

definition sync_filesystem :: "env \<Rightarrow> super_block \<Rightarrow> event list \<Rightarrow> int \<times> event list" where
  "sync_filesystem e sb tr =
     (if s_flags sb AND MS_RDONLY \<noteq> 0 then (0, tr)
      else
        let (ret, tr1) =
              (if vfs_emergency_remount e \<noteq> 0
               then uu_sync_filesystem e sb 1
                      (act (Printk ''sync_filesystem: force sync fs in wait mode'') tr)
               else uu_sync_filesystem e sb 0 tr)
        in if ret < 0 then (ret, tr1) else uu_sync_filesystem e sb 1 tr1)"

definition sync_one_sb :: "env \<Rightarrow> int \<Rightarrow> super_block \<Rightarrow> event list \<Rightarrow> event list" where
  "sync_one_sb e wait sb tr =
     (if \<not> (s_flags sb AND MS_RDONLY \<noteq> 0) then snd (uu_sync_filesystem e sb wait tr) else tr)"

text \<open>
  Modelled from the spec: \<open>iterate_supers\<close> is defined in fs/super.c, which is not under
  src/. The spec has it enumerate every mounted volume and call the function on each.
\<close>

fun iterate_supers :: "(super_block \<Rightarrow> event list \<Rightarrow> event list) \<Rightarrow> super_block list
    \<Rightarrow> event list \<Rightarrow> event list" where
  "iterate_supers f [] tr = tr"
| "iterate_supers f (sb # sbs) tr = iterate_supers f sbs (f sb tr)"

definition sync_filesystems :: "env \<Rightarrow> int \<Rightarrow> event list \<Rightarrow> event list" where
  "sync_filesystems e wait tr = iterate_supers (sync_one_sb e wait) (supers e) tr"

definition do_sync :: "env \<Rightarrow> event list \<Rightarrow> event list" where
  "do_sync e tr =
     (let tr1 = act Trace_sys_sync tr;
          tr2 = act Wakeup_flusher_threads tr1;
          tr3 = sync_filesystems e 0 tr2;
          tr4 = sync_filesystems e 1 tr3;
          tr5 = (if laptop_mode e \<noteq> 0 then act Laptop_sync_completion tr4 else tr4)
      in act Trace_sys_sync_done tr5)"

section \<open>sync()\<close>

text \<open>
  \<open>sync_seq\<close> is an \<open>unsigned long\<close>; its width is left open (the counter type \<open>'c\<close> is
  \<open>'l word\<close> below). The counter and the trace make up the state.
\<close>

record 'c sync_state =
  sync_seq :: 'c
  trace :: "event list"

text \<open>
  \<open>sys_sync\<close> reads \<open>sync_seq\<close> twice: into \<open>snap\<close> before \<open>mutex_lock\<close>, and into
  \<open>snap_done\<close> once it holds the mutex. Other threads run between the two reads, so the
  first value is an argument of the model, and \<open>s\<close> is the state in which \<open>mutex_lock\<close>
  returns.
\<close>

definition sys_sync :: "env \<Rightarrow> 'l::len word \<Rightarrow> 'l word sync_state
    \<Rightarrow> int \<times> 'l word sync_state" where
  "sys_sync e snap s =
     (let s1 = s\<lparr>trace := act Mutex_lock (trace s)\<rparr>;
          snap_done = sync_seq s1
      in if ULONG_CMP_GE snap_done ((snap + 3) AND NOT 1)
         then (0, s1\<lparr>trace := act Mutex_unlock (trace s1)\<rparr>)
         else
           let s2 = s1\<lparr>sync_seq := sync_seq s1 + 1,
                      trace := act (Sync_seq_write (unat (sync_seq s1 + 1))) (trace s1)\<rparr>;
               s3 = s2\<lparr>trace := do_sync e (trace s2)\<rparr>;
               s4 = s3\<lparr>sync_seq := sync_seq s3 + 1,
                      trace := act (Sync_seq_write (unat (sync_seq s3 + 1))) (trace s3)\<rparr>
           in (0, s4\<lparr>trace := act Mutex_unlock (trace s4)\<rparr>))"

section \<open>Emergency sync\<close>

definition do_sync_work :: "env \<Rightarrow> event list \<Rightarrow> event list" where
  "do_sync_work e tr =
     (let tr1 = sync_filesystems e 0 tr;
          tr2 = sync_filesystems e 0 tr1;
          tr3 = act (Printk ''Emergency Sync complete'') tr2
      in act Kfree_work tr3)"

text \<open>What the work queue does with a queued item: call its function.\<close>

fun run_work :: "env \<Rightarrow> work_fn \<Rightarrow> event list \<Rightarrow> event list" where
  "run_work e Do_sync_work tr = do_sync_work e tr"

text \<open>\<open>emergency_sync\<close> returns \<open>void\<close>: the model returns the trace alone.\<close>

definition emergency_sync :: "env \<Rightarrow> event list \<Rightarrow> event list" where
  "emergency_sync e tr =
     (if kmalloc_ok e then act (Schedule_work Do_sync_work) (act Kmalloc_work tr) else tr)"

section \<open>syncfs(), fsync(), fdatasync()\<close>

definition sys_syncfs :: "env \<Rightarrow> int \<Rightarrow> event list \<Rightarrow> int \<times> event list" where
  "sys_syncfs e fd tr =
     (case fd_table e fd of
        None \<Rightarrow> (- EBADF, tr)
      | Some f \<Rightarrow>
          let sb = d_sb f;
              tr1 = act (Down_read (s_id sb)) (act (Fget (f_id f)) tr);
              (ret, tr2) = sync_filesystem e sb tr1
          in (ret, act (Fput (f_id f)) (act (Up_read (s_id sb)) tr2)))"

definition vfs_fsync_range :: "config \<Rightarrow> env \<Rightarrow> struct_file \<Rightarrow> loff_t \<Rightarrow> loff_t \<Rightarrow> int \<Rightarrow> event list
    \<Rightarrow> int \<times> event list" where
  "vfs_fsync_range cfg e f start endb datasync tr =
     (if fsync_suppressed cfg e then (0, tr)
      else if (case f_op f of None \<Rightarrow> True | Some ops \<Rightarrow> \<not> fsync ops) then (- EINVAL, tr)
      else
        let tr1 = act (Trace_vfs_fsync (f_id f)) tr;
            (err, tr2) = ext e (F_op_fsync (f_id f) start endb datasync) tr1
        in (err, act (Trace_vfs_fsync_done (f_id f)) tr2))"

definition vfs_fsync :: "config \<Rightarrow> env \<Rightarrow> struct_file \<Rightarrow> int \<Rightarrow> event list \<Rightarrow> int \<times> event list" where
  "vfs_fsync cfg e f datasync tr = vfs_fsync_range cfg e f 0 LLONG_MAX datasync tr"

text \<open>
  \<open>do_fsync\<close> times the call; the path it formats with \<open>d_path\<close> goes only into the
  message it prints when the call took five seconds or more.
\<close>

definition do_fsync :: "config \<Rightarrow> env \<Rightarrow> int \<Rightarrow> int \<Rightarrow> event list \<Rightarrow> int \<times> event list" where
  "do_fsync cfg e fd datasync tr =
     (case fd_table e fd of
        None \<Rightarrow> (- EBADF, tr)
      | Some f \<Rightarrow>
          let tr1 = act (Fget (f_id f)) tr;
              fsync_t = ktime_get e tr1;
              (ret, tr2) = vfs_fsync cfg e f datasync tr1;
              tr3 = act (Fput (f_id f)) tr2;
              fsync_diff = ktime_get e tr3 - fsync_t
          in (ret, if fsync_diff \<ge> 5000000000
                   then act (Printk ''VFS: do_fsync takes too long'') tr3 else tr3))"

definition sys_fsync :: "config \<Rightarrow> env \<Rightarrow> int \<Rightarrow> event list \<Rightarrow> int \<times> event list" where
  "sys_fsync cfg e fd tr = (if fsync_suppressed cfg e then (0, tr) else do_fsync cfg e fd 0 tr)"

text \<open>In \<open>fdatasync\<close> the test is under \<open>#if 0\<close>: it is never compiled.\<close>

definition sys_fdatasync :: "config \<Rightarrow> env \<Rightarrow> int \<Rightarrow> event list \<Rightarrow> int \<times> event list" where
  "sys_fdatasync cfg e fd tr = do_fsync cfg e fd 1 tr"

section \<open>sync_file_range()\<close>

text \<open>Lines 340 to 354, the three phases; \<open>ret\<close> starts at 0.\<close>

definition range_phases :: "env \<Rightarrow> nat \<Rightarrow> loff_t \<Rightarrow> loff_t \<Rightarrow> uint \<Rightarrow> event list
    \<Rightarrow> int \<times> event list" where
  "range_phases e mapping offset endbyte flags tr =
     (let (ret1, tr1) =
            (if flags AND SYNC_FILE_RANGE_WAIT_BEFORE \<noteq> 0
             then ext e (Filemap_fdatawait_range mapping offset endbyte) tr else (0, tr))
      in if flags AND SYNC_FILE_RANGE_WAIT_BEFORE \<noteq> 0 \<and> ret1 < 0 then (ret1, tr1)
         else
           let (ret2, tr2) =
                 (if flags AND SYNC_FILE_RANGE_WRITE \<noteq> 0
                  then ext e (Filemap_fdatawrite_range mapping offset endbyte) tr1
                  else (ret1, tr1))
           in if flags AND SYNC_FILE_RANGE_WRITE \<noteq> 0 \<and> ret2 < 0 then (ret2, tr2)
              else if flags AND SYNC_FILE_RANGE_WAIT_AFTER \<noteq> 0
                   then ext e (Filemap_fdatawait_range mapping offset endbyte) tr2
                   else (ret2, tr2))"

text \<open>
  The constant \<open>0x100000000ULL << PAGE_CACHE_SHIFT\<close>. \<open>offset\<close> and \<open>endbyte\<close> are
  signed; against this constant they are compared as unsigned values, as C converts them.
\<close>

definition pgoff_limit :: "config \<Rightarrow> loff_t" where
  "pgoff_limit cfg = push_bit (PAGE_CACHE_SHIFT cfg) 0x100000000"

definition sys_sync_file_range :: "config \<Rightarrow> env \<Rightarrow> int \<Rightarrow> loff_t \<Rightarrow> loff_t \<Rightarrow> uint \<Rightarrow> event list
    \<Rightarrow> int \<times> event list" where
  "sys_sync_file_range cfg e fd offset nbytes flags tr =
     (if fsync_suppressed cfg e then (0, tr)
      else if flags AND NOT VALID_FLAGS \<noteq> 0 then (- EINVAL, tr)
      else
        let endbyte = offset + nbytes in
        if sint offset < 0 then (- EINVAL, tr)
        else if sint endbyte < 0 then (- EINVAL, tr)
        else if sint endbyte < sint offset then (- EINVAL, tr)
        else if sizeof_pgoff_t cfg = 4 \<and> offset \<ge> pgoff_limit cfg
        then (0, tr)
        else
          let nbytes1 = (if sizeof_pgoff_t cfg = 4 \<and> endbyte \<ge> pgoff_limit cfg
                         then 0 else nbytes);
              endbyte1 = (if nbytes1 = 0 then LLONG_MAX else endbyte - 1)
          in case fd_table e fd of
               None \<Rightarrow> (- EBADF, tr)
             | Some f \<Rightarrow>
                 let tr1 = act (Fget (f_id f)) tr in
                 if \<not> S_ISREG (i_mode f) \<and> \<not> S_ISBLK (i_mode f) \<and>
                    \<not> S_ISDIR (i_mode f) \<and> \<not> S_ISLNK (i_mode f)
                 then (- ESPIPE, act (Fput (f_id f)) tr1)
                 else
                   (case f_mapping f of
                      None \<Rightarrow> (- EINVAL, act (Fput (f_id f)) tr1)
                    | Some mapping \<Rightarrow>
                        let (ret, tr2) = range_phases e mapping offset endbyte1 flags tr1
                        in (ret, act (Fput (f_id f)) tr2)))"

definition sys_sync_file_range2 :: "config \<Rightarrow> env \<Rightarrow> int \<Rightarrow> uint \<Rightarrow> loff_t \<Rightarrow> loff_t \<Rightarrow> event list
    \<Rightarrow> int \<times> event list" where
  "sys_sync_file_range2 cfg e fd flags offset nbytes tr =
     (if fsync_suppressed cfg e then (0, tr)
      else sys_sync_file_range cfg e fd offset nbytes flags tr)"

section \<open>Notions used to state the properties\<close>

text \<open>
  An event of a waiting pass: a quota, metadata or device flush called with \<open>wait\<close> set,
  or the synchronous inode write-back.
\<close>

fun blocking_event :: "event \<Rightarrow> bool" where
  "blocking_event (Ret (Quota_sync sb t w) r) = (w \<noteq> 0)"
| "blocking_event (Ret (Sync_fs sb w) r) = (w \<noteq> 0)"
| "blocking_event (Ret (Sync_blockdev b w) r) = (w \<noteq> 0)"
| "blocking_event (Act (Sync_inodes_sb sb)) = True"
| "blocking_event _ = False"

text \<open>A block-device flush with the given \<open>wait\<close>.\<close>

fun blockdev_flush :: "int \<Rightarrow> event \<Rightarrow> bool" where
  "blockdev_flush w (Ret (Sync_blockdev b w') r) = (w' = w)"
| "blockdev_flush w _ = False"

text \<open>The volumes a pass reaches: writable, and not on the no-op backing device.\<close>

definition flushable :: "super_block \<Rightarrow> bool" where
  "flushable sb \<longleftrightarrow> s_flags sb AND MS_RDONLY = 0 \<and> \<not> s_bdi_noop sb"

text \<open>The file kinds \<open>sync_file_range\<close> accepts.\<close>

definition seekable :: "umode_t \<Rightarrow> bool" where
  "seekable m \<longleftrightarrow> S_ISREG m \<or> S_ISBLK m \<or> S_ISDIR m \<or> S_ISLNK m"

section \<open>Example configurations\<close>

definition volume_rw :: super_block where
  "volume_rw = \<lparr>s_id = 1, s_bdi_noop = False, s_flags = 0,
                 s_qcop = Some \<lparr>quota_sync = True\<rparr>, s_op_sync_fs = True, s_bdev = Some 7\<rparr>"

definition volume_ro :: super_block where
  "volume_ro = volume_rw\<lparr>s_id := 2, s_flags := MS_RDONLY\<rparr>"

definition volume_noop :: super_block where
  "volume_noop = volume_rw\<lparr>s_id := 3, s_bdi_noop := True, s_bdev := None\<rparr>"

text \<open>A regular file with an \<open>fsync\<close> method, and a FIFO without one.\<close>

definition file_reg :: struct_file where
  "file_reg = \<lparr>f_id = 10, f_op = Some \<lparr>fsync = True\<rparr>, d_sb = volume_rw,
                i_mode = S_IFREG OR 0x1A4, f_mapping = Some 20\<rparr>"

definition file_fifo :: struct_file where
  "file_fifo = \<lparr>f_id = 11, f_op = Some \<lparr>fsync = False\<rparr>, d_sb = volume_noop,
                 i_mode = S_IFIFO OR 0x180, f_mapping = Some 21\<rparr>"

text \<open>Descriptor 3 is the regular file, 4 the FIFO; every call out succeeds.\<close>

definition env_ok :: env where
  "env_ok = \<lparr>ext_ret = (\<lambda>tr c. 0),
             fd_table = (\<lambda>fd. if fd = 3 then Some file_reg
                               else if fd = 4 then Some file_fifo else None),
             supers = [volume_rw, volume_ro, volume_noop],
             kmalloc_ok = True, laptop_mode = 0, vfs_emergency_remount = 0,
             dyn_fsync_active = False, early_suspend_active = False,
             ktime_get = (\<lambda>tr. 0)\<rparr>"

definition env_suppressed :: env where
  "env_suppressed = env_ok\<lparr>dyn_fsync_active := True\<rparr>"

text \<open>
  Here the device fails a flush that does not wait, and a wait on a range fails unless it
  is the first call after \<open>fget_light\<close>.
\<close>

definition env_eio :: env where
  "env_eio = env_ok\<lparr>ext_ret := (\<lambda>tr c. case c of
                 Sync_blockdev b w \<Rightarrow> if w = 0 then - 5 else 0
               | Filemap_fdatawait_range m a b \<Rightarrow> if tr = [Act (Fget 10)] then 0 else - 5
               | _ \<Rightarrow> 0)\<rparr>"

text \<open>Here \<open>vfs_emergency_remount\<close> is set and the device fails every flush.\<close>

definition env_emergency :: env where
  "env_emergency = env_ok\<lparr>vfs_emergency_remount := 1,
                     ext_ret := (\<lambda>tr c. case c of Sync_blockdev b w \<Rightarrow> - 5 | _ \<Rightarrow> 0)\<rparr>"

text \<open>A 32-bit build with \<open>CONFIG_DYNAMIC_FSYNC\<close> and 4 KiB pages.\<close>

definition cfg_arm :: config where
  "cfg_arm = \<lparr>CONFIG_DYNAMIC_FSYNC = True, sizeof_pgoff_t = 4, PAGE_CACHE_SHIFT = 12\<rparr>"

section \<open>Facts about the constants and the counter arithmetic\<close>

lemmas example_defs = env_ok_def env_suppressed_def env_eio_def env_emergency_def cfg_arm_def
  file_reg_def
  file_fifo_def volume_rw_def volume_ro_def volume_noop_def

lemmas constant_defs = EINVAL_def EBADF_def ESPIPE_def VALID_FLAGS_def
  SYNC_FILE_RANGE_WAIT_BEFORE_def SYNC_FILE_RANGE_WRITE_def SYNC_FILE_RANGE_WAIT_AFTER_def
  MS_RDONLY_def LLONG_MAX_def S_IFMT_def S_IFLNK_def S_IFREG_def S_IFBLK_def S_IFDIR_def
  S_IFIFO_def S_ISREG_def S_ISBLK_def S_ISDIR_def S_ISLNK_def fsync_suppressed_def
  pgoff_limit_def seekable_def flushable_def

lemmas flush_defs = do_sync_def sync_filesystems_def sync_one_sb_def sync_filesystem_def
  uu_sync_filesystem_def ext_def act_def

lemma and_not_mask_push_drop:
  "(w :: 'l::len word) AND NOT (mask n) = push_bit n (drop_bit n w)"
  by (rule bit_eqI)
    (auto simp add: bit_and_iff bit_not_iff bit_mask_iff bit_push_bit_iff bit_drop_bit_eq)

text \<open>\<open>x & ~0x1\<close> rounds \<open>x\<close> down to an even number.\<close>

lemma and_not_one_round: "(w :: 'l::len word) AND NOT 1 = 2 * (w div 2)"
  using and_not_mask_push_drop [of w 1]
  by (simp add: drop_bit_eq_div push_bit_eq_mult)

text \<open>The flags test \<open>flags & ~VALID_FLAGS\<close> finds a bit that is in none of the three flags.\<close>

lemma invalid_flags_iff:
  "flags AND NOT VALID_FLAGS \<noteq> 0 \<longleftrightarrow> (\<exists>n. bit flags n \<and> \<not> bit VALID_FLAGS n)"
proof
  assume "flags AND NOT VALID_FLAGS \<noteq> 0"
  then show "\<exists>n. bit flags n \<and> \<not> bit VALID_FLAGS n"
    by (auto simp add: bit_eq_iff bit_and_iff bit_not_iff)
next
  assume "\<exists>n. bit flags n \<and> \<not> bit VALID_FLAGS n"
  then obtain n where n: "bit flags n" "\<not> bit VALID_FLAGS n" by blast
  then have "bit (flags AND NOT VALID_FLAGS) n"
    using bit_imp_le_length [of flags n] by (simp add: bit_and_iff bit_not_iff)
  then show "flags AND NOT VALID_FLAGS \<noteq> 0"
    by auto
qed

lemma sint_nonneg_uint:
  assumes "0 \<le> sint (x :: loff_t)"
  shows "uint x = sint x"
proof -
  have "sint x < 2 ^ 64"
    using sint_lt [of x] by simp
  with assms have "take_bit 64 (sint x) = sint x"
    by (simp add: take_bit_int_eq_self)
  then show ?thesis
    using uint_sint [of x] by simp
qed

text \<open>For a page shift below 32 the constant is \<open>2 ^ 32\<close> pages, counted in bytes.\<close>

lemma uint_pgoff_limit:
  assumes "PAGE_CACHE_SHIFT cfg < 32"
  shows "uint (pgoff_limit cfg) = 2 ^ (32 + PAGE_CACHE_SHIFT cfg)"
proof -
  have "pgoff_limit cfg = word_of_int (2 ^ (32 + PAGE_CACHE_SHIFT cfg))"
    by (simp add: pgoff_limit_def push_bit_eq_mult power_add)
  then have "uint (pgoff_limit cfg) = take_bit 64 (2 ^ (32 + PAGE_CACHE_SHIFT cfg) :: int)"
    by (simp only: uint_word_of_int_eq) simp
  also have "\<dots> = 2 ^ (32 + PAGE_CACHE_SHIFT cfg)"
    using assms by (simp only: take_bit_of_exp) simp
  finally show ?thesis .
qed

lemma pgoff_limit_le_iff:
  assumes "PAGE_CACHE_SHIFT cfg < 32" and "0 \<le> sint x"
  shows "pgoff_limit cfg \<le> x \<longleftrightarrow> 2 ^ (32 + PAGE_CACHE_SHIFT cfg) \<le> sint x"
  using assms by (simp add: word_le_def uint_pgoff_limit sint_nonneg_uint)

section \<open>Facts about the passes over the volumes\<close>

lemma uu_sync_filesystem_trace:
  assumes "\<not> s_bdi_noop sb"
  shows "uu_sync_filesystem e sb wait tr =
     (let tr1 = (if s_qcop sb \<noteq> None \<and> quota_sync (the (s_qcop sb))
                 then tr @ [Ret (Quota_sync (s_id sb) (- 1) wait)
                              (ext_ret e tr (Quota_sync (s_id sb) (- 1) wait))]
                 else tr);
          tr2 = tr1 @ [Act (if wait \<noteq> 0 then Sync_inodes_sb (s_id sb)
                            else Writeback_inodes_sb (s_id sb))];
          tr3 = (if s_op_sync_fs sb
                 then tr2 @ [Ret (Sync_fs (s_id sb) wait) (ext_ret e tr2 (Sync_fs (s_id sb) wait))]
                 else tr2);
          r = ext_ret e tr3 (Sync_blockdev (s_bdev sb) wait)
      in (r, tr3 @ [Ret (Sync_blockdev (s_bdev sb) wait) r]))"
  using assms
  by (simp add: uu_sync_filesystem_def ext_def act_def Let_def split: option.splits)

lemma uu_sync_filesystem_events:
  "\<exists>evs. snd (uu_sync_filesystem e sb wait tr) = tr @ evs \<and>
     (wait = 0 \<longrightarrow> (\<forall>ev \<in> set evs. \<not> blocking_event ev)) \<and>
     length (filter (blockdev_flush wait) evs) = (if s_bdi_noop sb then 0 else 1)"
  by (simp add: uu_sync_filesystem_def ext_def act_def Let_def split: option.splits)

lemma sync_one_sb_events:
  "\<exists>evs. sync_one_sb e wait sb tr = tr @ evs \<and>
     (wait = 0 \<longrightarrow> (\<forall>ev \<in> set evs. \<not> blocking_event ev)) \<and>
     length (filter (blockdev_flush wait) evs) = (if flushable sb then 1 else 0)"
  using uu_sync_filesystem_events [of e sb wait tr]
  by (auto simp add: sync_one_sb_def flushable_def)

lemma iterate_supers_events:
  "\<exists>evs. iterate_supers (sync_one_sb e wait) sbs tr = tr @ evs \<and>
     (wait = 0 \<longrightarrow> (\<forall>ev \<in> set evs. \<not> blocking_event ev)) \<and>
     length (filter (blockdev_flush wait) evs) = length (filter flushable sbs)"
proof (induction sbs arbitrary: tr)
  case Nil
  then show ?case by simp
next
  case (Cons sb sbs)
  obtain evs1 where 1: "sync_one_sb e wait sb tr = tr @ evs1"
    "wait = 0 \<longrightarrow> (\<forall>ev \<in> set evs1. \<not> blocking_event ev)"
    "length (filter (blockdev_flush wait) evs1) = (if flushable sb then 1 else 0)"
    using sync_one_sb_events by blast
  obtain evs2 where 2: "iterate_supers (sync_one_sb e wait) sbs (tr @ evs1) = (tr @ evs1) @ evs2"
    "wait = 0 \<longrightarrow> (\<forall>ev \<in> set evs2. \<not> blocking_event ev)"
    "length (filter (blockdev_flush wait) evs2) = length (filter flushable sbs)"
    using Cons.IH by blast
  show ?case
    by (rule exI [of _ "evs1 @ evs2"]) (use 1 2 in auto)
qed

text \<open>
  One pass over the volumes only adds events; a pass that does not wait adds no waiting
  event; and each pass flushes the block device of every flushable volume once.
\<close>

lemma sync_filesystems_events:
  "\<exists>evs. sync_filesystems e wait tr = tr @ evs \<and>
     (wait = 0 \<longrightarrow> (\<forall>ev \<in> set evs. \<not> blocking_event ev)) \<and>
     length (filter (blockdev_flush wait) evs) = length (filter flushable (supers e))"
  unfolding sync_filesystems_def by (rule iterate_supers_events)

lemma do_sync_passes:
  "\<exists>pass0 pass1.
     do_sync e tr =
       tr @ [Act Trace_sys_sync, Act Wakeup_flusher_threads] @ pass0 @ pass1 @
       (if laptop_mode e \<noteq> 0 then [Act Laptop_sync_completion] else []) @
       [Act Trace_sys_sync_done] \<and>
     (\<forall>ev \<in> set pass0. \<not> blocking_event ev) \<and>
     length (filter (blockdev_flush 0) pass0) = length (filter flushable (supers e)) \<and>
     length (filter (blockdev_flush 1) pass1) = length (filter flushable (supers e))"
proof -
  define tr2 where "tr2 = tr @ [Act Trace_sys_sync, Act Wakeup_flusher_threads]"
  obtain pass0 where 0: "sync_filesystems e 0 tr2 = tr2 @ pass0"
    "\<forall>ev \<in> set pass0. \<not> blocking_event ev"
    "length (filter (blockdev_flush 0) pass0) = length (filter flushable (supers e))"
    using sync_filesystems_events [of e 0 tr2] by auto
  obtain pass1 where 1: "sync_filesystems e 1 (tr2 @ pass0) = (tr2 @ pass0) @ pass1"
    "length (filter (blockdev_flush 1) pass1) = length (filter flushable (supers e))"
    using sync_filesystems_events [of e 1 "tr2 @ pass0"] by auto
  have "do_sync e tr =
       tr @ [Act Trace_sys_sync, Act Wakeup_flusher_threads] @ pass0 @ pass1 @
       (if laptop_mode e \<noteq> 0 then [Act Laptop_sync_completion] else []) @
       [Act Trace_sys_sync_done]"
    using 0(1) 1(1) by (simp add: do_sync_def act_def tr2_def Let_def)
  with 0 1 show ?thesis by blast
qed

section \<open>The coalescing protocol of sync()\<close>

text \<open>
  The mutex is taken and released with the counter even: \<open>sys_sync\<close> is the only
  writer of \<open>sync_seq\<close>, which starts at 0. The counter is then odd while \<open>do_sync\<close>
  runs and even afterwards, which is what the two \<open>WARN_ON_ONCE\<close> assert.
\<close>

lemma sys_sync_keeps_even:
  fixes s :: "'l::len word sync_state"
  assumes "even (sync_seq s)"
  shows "even (sync_seq (snd (sys_sync e snap s)))"
  using assms by (simp add: sys_sync_def Let_def)

text \<open>
  C1. Let \<open>snap\<close> be the counter read before the mutex is taken and \<open>sync_seq s\<close> the
  counter when it is held. \<open>sys_sync\<close> always returns 0. If the counter is
  wrap-tolerantly at least \<open>snap + 3\<close> rounded down to even, the call only takes and
  releases the mutex: the counter is unchanged and nothing is flushed. Otherwise it
  writes the counter plus one (odd, when the counter was even), runs \<open>do_sync\<close> (the
  tracing hooks, the flusher wake-up, one pass that does not wait and one that does, each
  flushing the block device of every flushable volume once), writes the counter plus two
  (even), and only then releases the mutex.
\<close>

theorem sys_sync_coalesces:
  fixes s :: "'l::len word sync_state"
  shows
  "fst (sys_sync e snap s) = 0 \<and>
   (ULONG_CMP_GE (sync_seq s) (2 * ((snap + 3) div 2)) \<longrightarrow>
      snd (sys_sync e snap s) = s\<lparr>trace := trace s @ [Act Mutex_lock, Act Mutex_unlock]\<rparr>) \<and>
   (\<not> ULONG_CMP_GE (sync_seq s) (2 * ((snap + 3) div 2)) \<longrightarrow>
      sync_seq (snd (sys_sync e snap s)) = sync_seq s + 1 + 1 \<and>
      (even (sync_seq s) \<longrightarrow> odd (sync_seq s + 1) \<and> even (sync_seq s + 1 + 1)) \<and>
      trace (snd (sys_sync e snap s)) =
         do_sync e (trace s @ [Act Mutex_lock, Act (Sync_seq_write (unat (sync_seq s + 1)))])
           @ [Act (Sync_seq_write (unat (sync_seq s + 1 + 1))), Act Mutex_unlock] \<and>
      (\<exists>pass0 pass1.
         do_sync e (trace s @ [Act Mutex_lock, Act (Sync_seq_write (unat (sync_seq s + 1)))]) =
           trace s @ [Act Mutex_lock, Act (Sync_seq_write (unat (sync_seq s + 1))),
                      Act Trace_sys_sync, Act Wakeup_flusher_threads] @ pass0 @ pass1 @
           (if laptop_mode e \<noteq> 0 then [Act Laptop_sync_completion] else []) @
           [Act Trace_sys_sync_done] \<and>
         (\<forall>ev \<in> set pass0. \<not> blocking_event ev) \<and>
         length (filter (blockdev_flush 0) pass0) = length (filter flushable (supers e)) \<and>
         length (filter (blockdev_flush 1) pass1) = length (filter flushable (supers e))))"
proof -
  have "sys_sync e snap s =
     (if ULONG_CMP_GE (sync_seq s) (2 * ((snap + 3) div 2))
      then (0, s\<lparr>trace := trace s @ [Act Mutex_lock, Act Mutex_unlock]\<rparr>)
      else (0, \<lparr>sync_seq = sync_seq s + 1 + 1,
                trace = do_sync e (trace s @ [Act Mutex_lock,
                                              Act (Sync_seq_write (unat (sync_seq s + 1)))])
                          @ [Act (Sync_seq_write (unat (sync_seq s + 1 + 1))),
                             Act Mutex_unlock]\<rparr>))"
    by (simp only: sys_sync_def and_not_one_round) (simp add: Let_def act_def)
  then show ?thesis
    using do_sync_passes
      [of e "trace s @ [Act Mutex_lock, Act (Sync_seq_write (unat (sync_seq s + 1)))]"]
    by simp
qed

text \<open>
  On a 32-bit counter: a call that finds the counter where its snapshot was runs the flush
  and leaves the counter two higher; a call whose snapshot \<open>0xFFFFFFFF\<close> was taken during a
  pass, and which finds the counter wrapped around to 2, only takes and releases the mutex.
\<close>

theorem sys_sync_coalesces_witness:
  "\<not> ULONG_CMP_GE (0 :: 32 word) (2 * ((0 + 3) div 2)) \<and> even (0 :: 32 word) \<and>
   sys_sync env_ok 0 \<lparr>sync_seq = 0 :: 32 word, trace = []\<rparr> =
     (0, \<lparr>sync_seq = 2,
          trace = [Act Mutex_lock, Act (Sync_seq_write 1), Act Trace_sys_sync,
           Act Wakeup_flusher_threads, Ret (Quota_sync 1 (- 1) 0) 0,
           Act (Writeback_inodes_sb 1), Ret (Sync_fs 1 0) 0,
           Ret (Sync_blockdev (Some 7) 0) 0, Ret (Quota_sync 1 (- 1) 1) 0,
           Act (Sync_inodes_sb 1), Ret (Sync_fs 1 1) 0,
           Ret (Sync_blockdev (Some 7) 1) 0, Act Trace_sys_sync_done,
           Act (Sync_seq_write 2), Act Mutex_unlock]\<rparr>) \<and>
   ULONG_CMP_GE (2 :: 32 word) (2 * ((0xFFFFFFFF + 3) div 2)) \<and>
   sys_sync env_ok 0xFFFFFFFF \<lparr>sync_seq = 2 :: 32 word, trace = []\<rparr> =
     (0, \<lparr>sync_seq = 2, trace = [Act Mutex_lock, Act Mutex_unlock]\<rparr>)"
  using sys_sync_coalesces [of env_ok 0 "\<lparr>sync_seq = 0 :: 32 word, trace = []\<rparr>"]
    sys_sync_coalesces [of env_ok "0xFFFFFFFF" "\<lparr>sync_seq = 2 :: 32 word, trace = []\<rparr>"]
  by (simp add: ULONG_CMP_GE_def prod_eq_iff flush_defs example_defs MS_RDONLY_def Let_def)

text \<open>
  C2. Take two counter values that stand for the counts \<open>d\<close> and \<open>t\<close> of increments since
  the start, however often the counter has wrapped. When the two counts are less than half
  the counter's range apart, the comparison by signed difference answers whether \<open>d\<close> has
  reached \<open>t\<close>.
\<close>

theorem ULONG_CMP_GE_half_range:
  fixes d t :: nat
  assumes "\<bar>int d - int t\<bar> < 2 ^ (LENGTH('l::len) - 1)"
  shows "ULONG_CMP_GE (of_nat d :: 'l word) (of_nat t) \<longleftrightarrow> t \<le> d"
proof -
  have "(of_nat d :: 'l word) - of_nat t = word_of_int (int d - int t)"
    by simp
  then have "sint ((of_nat d :: 'l word) - of_nat t) =
      signed_take_bit (LENGTH('l) - 1) (int d - int t)"
    by (simp only: sint_sbintrunc')
  also have "\<dots> = int d - int t"
    using assms by (intro signed_take_bit_int_eq_self) auto
  finally show ?thesis by (simp add: ULONG_CMP_GE_def)
qed

text \<open>
  A 32-bit counter that has wrapped once: the count \<open>2 ^ 32 + 1\<close> is stored as 1, and it
  compares as reached against the count \<open>2 ^ 32 - 1\<close>, stored as \<open>0xFFFFFFFF\<close>.
\<close>

theorem ULONG_CMP_GE_half_range_witness:
  "\<bar>int 4294967297 - int 4294967295\<bar> < 2 ^ (LENGTH(32) - 1) \<and>
   (of_nat 4294967297 :: 32 word) = 1 \<and> (of_nat 4294967295 :: 32 word) = 0xFFFFFFFF \<and>
   ULONG_CMP_GE (1 :: 32 word) 0xFFFFFFFF \<and> \<not> ULONG_CMP_GE (0xFFFFFFFF :: 32 word) 1"
  using ULONG_CMP_GE_half_range [where 'l = 32, of 4294967297 4294967295]
    ULONG_CMP_GE_half_range [where 'l = 32, of 4294967295 4294967297]
  by (simp add: ULONG_CMP_GE_def)

section \<open>Volume flush and emergency sync\<close>

text \<open>
  C6. A volume on the no-op backing device: the single pass returns 0 and calls nothing.
  A read-only volume: \<open>sync_filesystem\<close> returns 0 and \<open>sync_one_sb\<close> does nothing,
  neither calls anything. Otherwise the single pass calls the quota sync if the volume has
  one, writes the inodes back, calls the volume's \<open>sync_fs\<close> if it has one, and then
  flushes the block device; what it returns is what the block-device flush returned, and
  what the quota sync and \<open>sync_fs\<close> returned is not looked at.
\<close>

theorem volume_flush_result:
  "(s_bdi_noop sb \<longrightarrow> uu_sync_filesystem e sb wait tr = (0, tr)) \<and>
   (s_flags sb AND MS_RDONLY \<noteq> 0 \<longrightarrow>
      sync_filesystem e sb tr = (0, tr) \<and> sync_one_sb e wait sb tr = tr) \<and>
   (\<not> s_bdi_noop sb \<longrightarrow>
      uu_sync_filesystem e sb wait tr =
        (let tr1 = (if s_qcop sb \<noteq> None \<and> quota_sync (the (s_qcop sb))
                    then tr @ [Ret (Quota_sync (s_id sb) (- 1) wait)
                                 (ext_ret e tr (Quota_sync (s_id sb) (- 1) wait))]
                    else tr);
             tr2 = tr1 @ [Act (if wait \<noteq> 0 then Sync_inodes_sb (s_id sb)
                               else Writeback_inodes_sb (s_id sb))];
             tr3 = (if s_op_sync_fs sb
                    then tr2 @ [Ret (Sync_fs (s_id sb) wait)
                                  (ext_ret e tr2 (Sync_fs (s_id sb) wait))]
                    else tr2);
             r = ext_ret e tr3 (Sync_blockdev (s_bdev sb) wait)
         in (r, tr3 @ [Ret (Sync_blockdev (s_bdev sb) wait) r])))"
proof (intro conjI impI)
  assume "s_bdi_noop sb"
  then show "uu_sync_filesystem e sb wait tr = (0, tr)"
    by (simp add: uu_sync_filesystem_def)
next
  assume "s_flags sb AND MS_RDONLY \<noteq> 0"
  then show "sync_filesystem e sb tr = (0, tr)" and "sync_one_sb e wait sb tr = tr"
    by (simp_all add: sync_filesystem_def sync_one_sb_def)
next
  assume "\<not> s_bdi_noop sb"
  then show "uu_sync_filesystem e sb wait tr =
        (let tr1 = (if s_qcop sb \<noteq> None \<and> quota_sync (the (s_qcop sb))
                    then tr @ [Ret (Quota_sync (s_id sb) (- 1) wait)
                                 (ext_ret e tr (Quota_sync (s_id sb) (- 1) wait))]
                    else tr);
             tr2 = tr1 @ [Act (if wait \<noteq> 0 then Sync_inodes_sb (s_id sb)
                               else Writeback_inodes_sb (s_id sb))];
             tr3 = (if s_op_sync_fs sb
                    then tr2 @ [Ret (Sync_fs (s_id sb) wait)
                                  (ext_ret e tr2 (Sync_fs (s_id sb) wait))]
                    else tr2);
             r = ext_ret e tr3 (Sync_blockdev (s_bdev sb) wait)
         in (r, tr3 @ [Ret (Sync_blockdev (s_bdev sb) wait) r]))"
    by (rule uu_sync_filesystem_trace)
qed

text \<open>
  The three example volumes, with a quota sync and a \<open>sync_fs\<close> that fail with -5 while
  the device succeeds with 0 for a waiting flush.
\<close>

theorem volume_flush_result_witness:
  "s_bdi_noop volume_noop \<and> uu_sync_filesystem env_ok volume_noop 1 [] = (0, []) \<and>
   s_flags volume_ro AND MS_RDONLY \<noteq> 0 \<and> sync_filesystem env_ok volume_ro [] = (0, []) \<and>
   sync_one_sb env_ok 1 volume_ro [] = [] \<and>
   \<not> s_bdi_noop volume_rw \<and>
   uu_sync_filesystem
     (env_ok\<lparr>ext_ret := \<lambda>tr c. case c of Sync_blockdev b w \<Rightarrow> 0 | _ \<Rightarrow> - 5\<rparr>) volume_rw 1 [] =
     (0, [Ret (Quota_sync 1 (- 1) 1) (- 5), Act (Sync_inodes_sb 1), Ret (Sync_fs 1 1) (- 5),
          Ret (Sync_blockdev (Some 7) 1) 0])"
  using volume_flush_result [of volume_noop env_ok 1 "[]"]
    volume_flush_result [of volume_ro env_ok 1 "[]"]
    volume_flush_result [of volume_rw
      "env_ok\<lparr>ext_ret := \<lambda>tr c. case c of Sync_blockdev b w \<Rightarrow> 0 | _ \<Rightarrow> - 5\<rparr>" 1 "[]"]
  by (simp add: example_defs MS_RDONLY_def Let_def)

text \<open>
  C9. \<open>emergency_sync\<close> returns nothing. When the allocation succeeds it queues one work
  item, \<open>do_sync_work\<close>, and nothing else; when it fails, nothing happens. The queued item
  makes two passes over the volumes, neither of which waits, each flushing the block device
  of every flushable volume once, then prints the completion message and frees the item.
\<close>

theorem emergency_sync_two_passes:
  "(kmalloc_ok e \<longrightarrow>
      emergency_sync e tr = tr @ [Act Kmalloc_work, Act (Schedule_work Do_sync_work)]) \<and>
   (\<not> kmalloc_ok e \<longrightarrow> emergency_sync e tr = tr) \<and>
   (\<exists>pass1 pass2.
      run_work e Do_sync_work tr =
        tr @ pass1 @ pass2 @ [Act (Printk ''Emergency Sync complete''), Act Kfree_work] \<and>
      sync_filesystems e 0 tr = tr @ pass1 \<and>
      sync_filesystems e 0 (tr @ pass1) = tr @ pass1 @ pass2 \<and>
      (\<forall>ev \<in> set (pass1 @ pass2). \<not> blocking_event ev) \<and>
      length (filter (blockdev_flush 0) pass1) = length (filter flushable (supers e)) \<and>
      length (filter (blockdev_flush 0) pass2) = length (filter flushable (supers e)))"
proof -
  obtain pass1 where 1: "sync_filesystems e 0 tr = tr @ pass1"
    "\<forall>ev \<in> set pass1. \<not> blocking_event ev"
    "length (filter (blockdev_flush 0) pass1) = length (filter flushable (supers e))"
    using sync_filesystems_events [of e 0 tr] by auto
  obtain pass2 where 2: "sync_filesystems e 0 (tr @ pass1) = (tr @ pass1) @ pass2"
    "\<forall>ev \<in> set pass2. \<not> blocking_event ev"
    "length (filter (blockdev_flush 0) pass2) = length (filter flushable (supers e))"
    using sync_filesystems_events [of e 0 "tr @ pass1"] by auto
  have "run_work e Do_sync_work tr =
        tr @ pass1 @ pass2 @ [Act (Printk ''Emergency Sync complete''), Act Kfree_work]"
    by (simp add: do_sync_work_def 1 2 act_def)
  with 1 2 show ?thesis
    by (auto simp add: emergency_sync_def act_def)
qed

text \<open>With the three example volumes, of which one is flushable.\<close>

theorem emergency_sync_two_passes_witness:
  "kmalloc_ok env_ok \<and>
   emergency_sync env_ok [] = [Act Kmalloc_work, Act (Schedule_work Do_sync_work)] \<and>
   \<not> kmalloc_ok (env_ok\<lparr>kmalloc_ok := False\<rparr>) \<and>
   emergency_sync (env_ok\<lparr>kmalloc_ok := False\<rparr>) [] = [] \<and>
   run_work env_ok Do_sync_work [] =
     [Ret (Quota_sync 1 (- 1) 0) 0, Act (Writeback_inodes_sb 1),
      Ret (Sync_fs 1 0) 0, Ret (Sync_blockdev (Some 7) 0) 0,
      Ret (Quota_sync 1 (- 1) 0) 0, Act (Writeback_inodes_sb 1),
      Ret (Sync_fs 1 0) 0, Ret (Sync_blockdev (Some 7) 0) 0,
      Act (Printk ''Emergency Sync complete''), Act Kfree_work] \<and>
   length (filter flushable (supers env_ok)) = 1"
  using emergency_sync_two_passes [of env_ok "[]"]
    emergency_sync_two_passes [of "env_ok\<lparr>kmalloc_ok := False\<rparr>" "[]"]
  by (simp add: emergency_sync_def do_sync_work_def flush_defs example_defs constant_defs Let_def)

section \<open>syncfs()\<close>

text \<open>
  C10, as the code has it. With \<open>vfs_emergency_remount\<close> set, the first pass of
  \<open>sync_filesystem\<close> is not a best-effort pass: it is called with \<open>wait = 1\<close>. On a
  device that fails every flush, \<open>syncfs\<close> returns the error of that first pass after the
  synchronous inode write-back and a waiting flush of the block device have been called.
\<close>

theorem syncfs_first_pass_error_counterexample:
  "fd_table env_emergency 3 = Some file_reg \<and> s_flags (d_sb file_reg) AND MS_RDONLY = 0 \<and>
   vfs_emergency_remount env_emergency \<noteq> 0 \<and>
   sys_syncfs env_emergency 3 [] =
     (- 5, [Act (Fget 10), Act (Down_read 1),
            Act (Printk ''sync_filesystem: force sync fs in wait mode''),
            Ret (Quota_sync 1 (- 1) 1) 0, Act (Sync_inodes_sb 1), Ret (Sync_fs 1 1) 0,
            Ret (Sync_blockdev (Some 7) 1) (- 5), Act (Up_read 1), Act (Fput 10)]) \<and>
   blocking_event (Act (Sync_inodes_sb 1)) \<and>
   blocking_event (Ret (Sync_blockdev (Some 7) 1) (- 5))"
  by (simp add: sys_syncfs_def flush_defs example_defs constant_defs Let_def)

text \<open>
  C10, amended. \<open>syncfs\<close> on a descriptor of a writable volume: the first pass of
  \<open>sync_filesystem\<close> does not wait when \<open>vfs_emergency_remount\<close> is clear, and is
  itself a waiting pass (announced by a message) when it is set. If the first pass returns
  a negative value, the second pass is not called and that value is what
  \<open>sync_filesystem\<close> and \<open>syncfs\<close> return; when the first pass did not wait, the call
  has then made no waiting call at all. The second pass, which waits, runs only when the
  first pass returned a value that is not negative, and then its result is the result of
  the call.
\<close>

theorem syncfs_first_pass_error:
  assumes "fd_table e fd = Some f" and "s_flags (d_sb f) AND MS_RDONLY = 0"
  shows
    "let sb = d_sb f;
         wait1 = (if vfs_emergency_remount e \<noteq> 0 then 1 else 0);
         msg = (if vfs_emergency_remount e \<noteq> 0
                then [Act (Printk ''sync_filesystem: force sync fs in wait mode'')] else []);
         first = uu_sync_filesystem e sb wait1 (tr @ msg);
         pass1 = uu_sync_filesystem e sb wait1
                   (tr @ [Act (Fget (f_id f)), Act (Down_read (s_id sb))] @ msg);
         pass2 = uu_sync_filesystem e sb 1 (snd pass1);
         leave = [Act (Up_read (s_id sb)), Act (Fput (f_id f))]
     in sync_filesystem e sb tr =
          (if fst first < 0 then first else uu_sync_filesystem e sb 1 (snd first)) \<and>
        (fst pass1 < 0 \<longrightarrow>
           sys_syncfs e fd tr = (fst pass1, snd pass1 @ leave) \<and>
           (vfs_emergency_remount e = 0 \<longrightarrow>
              (\<exists>evs. snd (sys_syncfs e fd tr) = tr @ evs \<and>
                     (\<forall>ev \<in> set evs. \<not> blocking_event ev)))) \<and>
        (\<not> fst pass1 < 0 \<longrightarrow> sys_syncfs e fd tr = (fst pass2, snd pass2 @ leave))"
proof -
  define sb where "sb = d_sb f"
  define wait1 :: int where "wait1 = (if vfs_emergency_remount e \<noteq> 0 then 1 else 0)"
  define msg where "msg = (if vfs_emergency_remount e \<noteq> 0
    then [Act (Printk ''sync_filesystem: force sync fs in wait mode'')] else [])"
  define tr0 where "tr0 = tr @ [Act (Fget (f_id f)), Act (Down_read (s_id sb))]"
  have sf: "sync_filesystem e sb t =
          (if fst (uu_sync_filesystem e sb wait1 (t @ msg)) < 0
           then uu_sync_filesystem e sb wait1 (t @ msg)
           else uu_sync_filesystem e sb 1 (snd (uu_sync_filesystem e sb wait1 (t @ msg))))" for t
    using assms(2)
    by (simp add: sync_filesystem_def sb_def wait1_def msg_def act_def case_prod_beta)
  have sys: "sys_syncfs e fd tr =
      (fst (sync_filesystem e sb tr0),
       snd (sync_filesystem e sb tr0) @ [Act (Up_read (s_id sb)), Act (Fput (f_id f))])"
    using assms(1) by (simp add: sys_syncfs_def sb_def tr0_def act_def Let_def case_prod_beta)
  have quiet: "\<exists>evs. snd (sys_syncfs e fd tr) = tr @ evs \<and> (\<forall>ev \<in> set evs. \<not> blocking_event ev)"
    if neg: "fst (uu_sync_filesystem e sb wait1 (tr0 @ msg)) < 0"
      and normal: "vfs_emergency_remount e = 0"
  proof -
    from normal have w: "wait1 = 0" and m: "msg = []"
      by (simp_all add: wait1_def msg_def)
    obtain evs where evs: "snd (uu_sync_filesystem e sb 0 tr0) = tr0 @ evs"
      "\<forall>ev \<in> set evs. \<not> blocking_event ev"
      using uu_sync_filesystem_events [of e sb 0 tr0] by auto
    show ?thesis
      by (rule exI [of _ "[Act (Fget (f_id f)), Act (Down_read (s_id sb))] @ evs
            @ [Act (Up_read (s_id sb)), Act (Fput (f_id f))]"])
         (use evs neg w m in \<open>simp add: sys sf tr0_def\<close>)
  qed
  show ?thesis
    unfolding Let_def sb_def [symmetric] wait1_def [symmetric] msg_def [symmetric]
      append_assoc [symmetric] tr0_def [symmetric]
    using quiet by (simp add: sys sf)
qed

text \<open>
  Descriptor 3. With \<open>vfs_emergency_remount\<close> clear, on a device that fails the flush
  that does not wait with -5, \<open>syncfs\<close> returns -5 and has made no waiting call. With it
  set, on a device that fails every flush, \<open>syncfs\<close> returns the -5 of the first pass,
  which waited, and the second pass is not called.
\<close>

theorem syncfs_first_pass_error_witness:
  "fd_table env_eio 3 = Some file_reg \<and> fd_table env_emergency 3 = Some file_reg \<and>
   s_flags (d_sb file_reg) AND MS_RDONLY = 0 \<and>
   vfs_emergency_remount env_eio = 0 \<and>
   sys_syncfs env_eio 3 [] =
     (- 5, [Act (Fget 10), Act (Down_read 1), Ret (Quota_sync 1 (- 1) 0) 0,
            Act (Writeback_inodes_sb 1), Ret (Sync_fs 1 0) 0,
            Ret (Sync_blockdev (Some 7) 0) (- 5), Act (Up_read 1), Act (Fput 10)]) \<and>
   sys_syncfs env_emergency 3 [] =
     (- 5, [Act (Fget 10), Act (Down_read 1),
            Act (Printk ''sync_filesystem: force sync fs in wait mode''),
            Ret (Quota_sync 1 (- 1) 1) 0, Act (Sync_inodes_sb 1), Ret (Sync_fs 1 1) 0,
            Ret (Sync_blockdev (Some 7) 1) (- 5), Act (Up_read 1), Act (Fput 10)]) \<and>
   sys_syncfs env_ok 3 [] =
     (0, [Act (Fget 10), Act (Down_read 1), Ret (Quota_sync 1 (- 1) 0) 0,
          Act (Writeback_inodes_sb 1), Ret (Sync_fs 1 0) 0,
          Ret (Sync_blockdev (Some 7) 0) 0, Ret (Quota_sync 1 (- 1) 1) 0,
          Act (Sync_inodes_sb 1), Ret (Sync_fs 1 1) 0,
          Ret (Sync_blockdev (Some 7) 1) 0, Act (Up_read 1), Act (Fput 10)])"
  using syncfs_first_pass_error [of env_eio 3 file_reg "[]"]
    syncfs_first_pass_error [of env_emergency 3 file_reg "[]"]
    syncfs_first_pass_error [of env_ok 3 file_reg "[]"]
  by (simp add: flush_defs example_defs constant_defs Let_def)

section \<open>sync_file_range()\<close>

text \<open>The function with the bookkeeping of its trace written out.\<close>

lemma sys_sync_file_range_unfold:
  "sys_sync_file_range cfg e fd offset nbytes flags tr =
     (if fsync_suppressed cfg e then (0, tr)
      else if flags AND NOT VALID_FLAGS \<noteq> 0 then (- EINVAL, tr)
      else if sint offset < 0 then (- EINVAL, tr)
      else if sint (offset + nbytes) < 0 then (- EINVAL, tr)
      else if sint (offset + nbytes) < sint offset then (- EINVAL, tr)
      else if sizeof_pgoff_t cfg = 4 \<and> pgoff_limit cfg \<le> offset then (0, tr)
      else
        let endbyte = (if nbytes = 0 \<or> sizeof_pgoff_t cfg = 4 \<and> pgoff_limit cfg \<le> offset + nbytes
                       then LLONG_MAX else offset + nbytes - 1)
        in case fd_table e fd of
             None \<Rightarrow> (- EBADF, tr)
           | Some f \<Rightarrow>
               if \<not> seekable (i_mode f)
               then (- ESPIPE, tr @ [Act (Fget (f_id f)), Act (Fput (f_id f))])
               else
                 (case f_mapping f of
                    None \<Rightarrow> (- EINVAL, tr @ [Act (Fget (f_id f)), Act (Fput (f_id f))])
                  | Some m \<Rightarrow>
                      (fst (range_phases e m offset endbyte flags (tr @ [Act (Fget (f_id f))])),
                       snd (range_phases e m offset endbyte flags (tr @ [Act (Fget (f_id f))]))
                         @ [Act (Fput (f_id f))])))"
  by (auto simp add: sys_sync_file_range_def seekable_def act_def Let_def case_prod_beta
      split: option.splits)

lemma range_phases_trace:
  "range_phases e m offset endbyte flags tr =
     (let wait = Filemap_fdatawait_range m offset endbyte;
          write = Filemap_fdatawrite_range m offset endbyte;
          p1 = (flags AND SYNC_FILE_RANGE_WAIT_BEFORE \<noteq> 0);
          p2 = (flags AND SYNC_FILE_RANGE_WRITE \<noteq> 0);
          p3 = (flags AND SYNC_FILE_RANGE_WAIT_AFTER \<noteq> 0);
          r1 = ext_ret e tr wait;
          tr1 = (if p1 then tr @ [Ret wait r1] else tr);
          r2 = ext_ret e tr1 write;
          tr2 = (if p2 then tr1 @ [Ret write r2] else tr1);
          r3 = ext_ret e tr2 wait;
          tr3 = (if p3 then tr2 @ [Ret wait r3] else tr2)
      in if p1 \<and> r1 < 0 then (r1, tr1)
         else if p2 \<and> r2 < 0 then (r2, tr2)
         else if p3 then (r3, tr3)
         else (if p2 then r2 else if p1 then r1 else 0, tr2))"
  by (simp add: range_phases_def ext_def Let_def)

lemma range_phases_ret:
  "fst (range_phases e m offset endbyte flags tr) = 0 \<or>
   (\<exists>h c. fst (range_phases e m offset endbyte flags tr) = ext_ret e h c)"
  unfolding range_phases_trace Let_def by auto

lemma range_phases_success:
  assumes "\<forall>h c. ext_ret e h c \<le> 0" and "0 \<le> fst (range_phases e m offset endbyte flags tr)"
  shows "fst (range_phases e m offset endbyte flags tr) = 0"
  using range_phases_ret [of e m offset endbyte flags tr] assms
  by (auto simp add: order_antisym)

text \<open>
  C3, as the code has it. Where \<open>pgoff_t\<close> has four bytes, a call with valid arguments
  whose offset is at or beyond \<open>0x100000000 << PAGE_CACHE_SHIFT\<close> returns 0 before the
  descriptor is looked up. With 4 KiB pages, at offset \<open>2 ^ 44\<close> on the FIFO behind
  descriptor 4, which is none of the four accepted kinds, the call returns 0, not
  \<open>-ESPIPE\<close>.
\<close>

theorem sync_file_range_rejects_counterexample:
  "\<not> fsync_suppressed cfg_arm env_ok \<and> (7 :: uint) AND NOT VALID_FLAGS = 0 \<and>
   0 \<le> sint (0x100000000000 :: loff_t) \<and> 0 \<le> sint (0x100000000000 + 0 :: loff_t) \<and>
   sint (0x100000000000 :: loff_t) \<le> sint (0x100000000000 + 0 :: loff_t) \<and>
   fd_table env_ok 4 = Some file_fifo \<and>
   \<not> S_ISREG (i_mode file_fifo) \<and> \<not> S_ISBLK (i_mode file_fifo) \<and>
   \<not> S_ISDIR (i_mode file_fifo) \<and> \<not> S_ISLNK (i_mode file_fifo) \<and>
   sys_sync_file_range cfg_arm env_ok 4 0x100000000000 0 7 [] = (0, []) \<and>
   (0 :: int) \<noteq> - ESPIPE"
  by (simp add: sys_sync_file_range_def example_defs constant_defs)

text \<open>
  C3, amended. A call that reaches the validation (it is not suppressed), and whose flags
  have a bit outside the three valid ones, or whose offset is negative, or whose
  \<open>offset + nbytes\<close> (in 64-bit wrap-around arithmetic) is negative or below the offset,
  returns \<open>-EINVAL\<close> and calls nothing. Otherwise, unless the call is answered by the
  32-bit early return (\<open>pgoff_t\<close> of four bytes and the offset at or beyond the limit),
  a call whose descriptor resolves to a file that is not a regular file, block device,
  directory or symbolic link returns \<open>-ESPIPE\<close>, having only taken and dropped the file
  reference.
\<close>

theorem sync_file_range_rejects:
  assumes "\<not> fsync_suppressed cfg e"
  shows
    "(flags AND NOT VALID_FLAGS \<noteq> 0 \<or> sint offset < 0 \<or> sint (offset + nbytes) < 0 \<or>
      sint (offset + nbytes) < sint offset
        \<longrightarrow> sys_sync_file_range cfg e fd offset nbytes flags tr = (- EINVAL, tr)) \<and>
     (flags AND NOT VALID_FLAGS = 0 \<and> 0 \<le> sint offset \<and> 0 \<le> sint (offset + nbytes) \<and>
      sint offset \<le> sint (offset + nbytes) \<and>
      \<not> (sizeof_pgoff_t cfg = 4 \<and> pgoff_limit cfg \<le> offset) \<and>
      fd_table e fd = Some f \<and>
      \<not> S_ISREG (i_mode f) \<and> \<not> S_ISBLK (i_mode f) \<and> \<not> S_ISDIR (i_mode f) \<and>
      \<not> S_ISLNK (i_mode f)
        \<longrightarrow> sys_sync_file_range cfg e fd offset nbytes flags tr =
              (- ESPIPE, tr @ [Act (Fget (f_id f)), Act (Fput (f_id f))]))"
  using assms
  by (simp add: sys_sync_file_range_unfold seekable_def Let_def)

text \<open>
  The cases of the spec: a flag outside the valid ones, the offset -1, an end that
  overflows, and the FIFO behind descriptor 4.
\<close>

theorem sync_file_range_rejects_witness:
  "\<not> fsync_suppressed cfg_arm env_ok \<and>
   (8 :: uint) AND NOT VALID_FLAGS \<noteq> 0 \<and>
   sys_sync_file_range cfg_arm env_ok 3 0 0 8 [] = (- EINVAL, []) \<and>
   sint (- 1 :: loff_t) < 0 \<and>
   sys_sync_file_range cfg_arm env_ok 3 (- 1) 10 0 [] = (- EINVAL, []) \<and>
   sint (LLONG_MAX - 5 + 100) < 0 \<and>
   sys_sync_file_range cfg_arm env_ok 3 (LLONG_MAX - 5) 100 0 [] = (- EINVAL, []) \<and>
   fd_table env_ok 4 = Some file_fifo \<and>
   sys_sync_file_range cfg_arm env_ok 4 0 0 7 [] = (- ESPIPE, [Act (Fget 11), Act (Fput 11)])"
  using sync_file_range_rejects [of cfg_arm env_ok 8 0 0 3 "[]" file_fifo]
    sync_file_range_rejects [of cfg_arm env_ok 0 "- 1" 10 3 "[]" file_fifo]
    sync_file_range_rejects [of cfg_arm env_ok 0 "LLONG_MAX - 5" 100 3 "[]" file_fifo]
    sync_file_range_rejects [of cfg_arm env_ok 7 0 0 4 "[]" file_fifo]
  by (simp add: example_defs constant_defs)

text \<open>
  C4. Take a call whose arguments pass the validation (flags within the three
  valid ones, offset and \<open>offset + nbytes\<close> not negative, \<open>offset + nbytes\<close> not below the
  offset), where \<open>pgoff_t\<close> has four bytes and the page shift is below 32, so that a page
  index reaches \<open>2 ^ (32 + PAGE_CACHE_SHIFT)\<close> bytes. If the offset is at or beyond that
  limit, the call returns 0 and calls nothing. If the offset is below the limit and
  \<open>offset + nbytes\<close> is at or beyond it, the call does what the call with \<open>nbytes = 0\<close>
  does. And when the call goes on to flush (it is not suppressed, the offset is below the
  limit, the descriptor resolves to a file of an accepted kind with a mapping), the phases
  run from \<open>offset\<close> to \<open>LLONG_MAX\<close> when \<open>nbytes\<close> is 0 or was clamped to 0, and to
  \<open>offset + nbytes - 1\<close> otherwise.
\<close>

theorem sync_file_range_normalizes:
  assumes "flags AND NOT VALID_FLAGS = 0"
    and "0 \<le> sint offset" and "0 \<le> sint (offset + nbytes)"
    and "sint offset \<le> sint (offset + nbytes)"
    and "sizeof_pgoff_t cfg = 4" and "PAGE_CACHE_SHIFT cfg < 32"
  shows
    "(2 ^ (32 + PAGE_CACHE_SHIFT cfg) \<le> sint offset
        \<longrightarrow> sys_sync_file_range cfg e fd offset nbytes flags tr = (0, tr)) \<and>
     (sint offset < 2 ^ (32 + PAGE_CACHE_SHIFT cfg) \<and>
      2 ^ (32 + PAGE_CACHE_SHIFT cfg) \<le> sint (offset + nbytes)
        \<longrightarrow> sys_sync_file_range cfg e fd offset nbytes flags tr =
              sys_sync_file_range cfg e fd offset 0 flags tr) \<and>
     (\<not> fsync_suppressed cfg e \<and> sint offset < 2 ^ (32 + PAGE_CACHE_SHIFT cfg) \<and>
      fd_table e fd = Some f \<and> seekable (i_mode f) \<and> f_mapping f = Some m
        \<longrightarrow> sys_sync_file_range cfg e fd offset nbytes flags tr =
              (let endbyte = (if nbytes = 0 then LLONG_MAX
                              else if 2 ^ (32 + PAGE_CACHE_SHIFT cfg) \<le> sint (offset + nbytes)
                              then LLONG_MAX
                              else offset + nbytes - 1);
                   (ret, tr') = range_phases e m offset endbyte flags (tr @ [Act (Fget (f_id f))])
               in (ret, tr' @ [Act (Fput (f_id f))])))"
  using assms
  by (simp add: sys_sync_file_range_unfold pgoff_limit_le_iff Let_def case_prod_beta)

text \<open>
  With 4 KiB pages the limit is \<open>2 ^ 44\<close>. A call at the limit returns at once; a call
  for the last page below the limit, whose end is the limit, is flushed to \<open>LLONG_MAX\<close>;
  the same call one byte shorter is flushed to the last byte below the limit.
\<close>

theorem sync_file_range_normalizes_witness:
  "(7 :: uint) AND NOT VALID_FLAGS = 0 \<and> sizeof_pgoff_t cfg_arm = 4 \<and>
   PAGE_CACHE_SHIFT cfg_arm < 32 \<and> \<not> fsync_suppressed cfg_arm env_ok \<and>
   fd_table env_ok 3 = Some file_reg \<and> seekable (i_mode file_reg) \<and>
   f_mapping file_reg = Some 20 \<and>
   2 ^ (32 + PAGE_CACHE_SHIFT cfg_arm) \<le> sint (0x100000000000 :: loff_t) \<and>
   sys_sync_file_range cfg_arm env_ok 3 0x100000000000 0 7 [] = (0, []) \<and>
   sint (0xFFFFFFFF000 :: loff_t) < 2 ^ (32 + PAGE_CACHE_SHIFT cfg_arm) \<and>
   2 ^ (32 + PAGE_CACHE_SHIFT cfg_arm) \<le> sint (0xFFFFFFFF000 + 0x1000 :: loff_t) \<and>
   sys_sync_file_range cfg_arm env_ok 3 0xFFFFFFFF000 0x1000 7 [] =
     sys_sync_file_range cfg_arm env_ok 3 0xFFFFFFFF000 0 7 [] \<and>
   sys_sync_file_range cfg_arm env_ok 3 0xFFFFFFFF000 0x1000 7 [] =
     (0, [Act (Fget 10),
          Ret (Filemap_fdatawait_range 20 0xFFFFFFFF000 0x7FFFFFFFFFFFFFFF) 0,
          Ret (Filemap_fdatawrite_range 20 0xFFFFFFFF000 0x7FFFFFFFFFFFFFFF) 0,
          Ret (Filemap_fdatawait_range 20 0xFFFFFFFF000 0x7FFFFFFFFFFFFFFF) 0,
          Act (Fput 10)]) \<and>
   sys_sync_file_range cfg_arm env_ok 3 0xFFFFFFFF000 0xFFF 7 [] =
     (0, [Act (Fget 10),
          Ret (Filemap_fdatawait_range 20 0xFFFFFFFF000 0xFFFFFFFFFFE) 0,
          Ret (Filemap_fdatawrite_range 20 0xFFFFFFFF000 0xFFFFFFFFFFE) 0,
          Ret (Filemap_fdatawait_range 20 0xFFFFFFFF000 0xFFFFFFFFFFE) 0,
          Act (Fput 10)])"
  using sync_file_range_normalizes [of 7 "0x100000000000" 0 cfg_arm env_ok 3 "[]" file_reg 20]
    sync_file_range_normalizes [of 7 "0xFFFFFFFF000" "0x1000" cfg_arm env_ok 3 "[]" file_reg 20]
    sync_file_range_normalizes [of 7 "0xFFFFFFFF000" "0xFFF" cfg_arm env_ok 3 "[]" file_reg 20]
  by (simp add: sys_sync_file_range_def range_phases_def ext_def act_def example_defs
      constant_defs)

text \<open>
  C5. A validated call is one that reaches the phases: it is not suppressed, its arguments
  pass the validation, it is not answered by the 32-bit early return, and its descriptor
  resolves to a file of an accepted kind with a mapping. Such a call waits before, writes
  and waits after, in this order, each only if its flag is set, over the same range. If
  the wait before or the write returns a negative value, that value is the result and no
  later phase is called. If the wait after is reached, what it returns is the result. If no
  selected phase returns a negative value the result is not negative, and it is 0 when
  the phases return only 0 or negative values.
\<close>

theorem sync_file_range_phases:
  assumes "\<not> fsync_suppressed cfg e"
    and "flags AND NOT VALID_FLAGS = 0"
    and "0 \<le> sint offset" and "0 \<le> sint (offset + nbytes)"
    and "sint offset \<le> sint (offset + nbytes)"
    and "\<not> (sizeof_pgoff_t cfg = 4 \<and> pgoff_limit cfg \<le> offset)"
    and "fd_table e fd = Some f" and "seekable (i_mode f)" and "f_mapping f = Some m"
  shows
    "let endbyte = (if nbytes = 0 \<or> sizeof_pgoff_t cfg = 4 \<and> pgoff_limit cfg \<le> offset + nbytes
                    then LLONG_MAX else offset + nbytes - 1);
         wait = Filemap_fdatawait_range m offset endbyte;
         write = Filemap_fdatawrite_range m offset endbyte;
         p1 = (flags AND SYNC_FILE_RANGE_WAIT_BEFORE \<noteq> 0);
         p2 = (flags AND SYNC_FILE_RANGE_WRITE \<noteq> 0);
         p3 = (flags AND SYNC_FILE_RANGE_WAIT_AFTER \<noteq> 0);
         tr0 = tr @ [Act (Fget (f_id f))];
         r1 = ext_ret e tr0 wait;
         tr1 = (if p1 then tr0 @ [Ret wait r1] else tr0);
         r2 = ext_ret e tr1 write;
         tr2 = (if p2 then tr1 @ [Ret write r2] else tr1);
         r3 = ext_ret e tr2 wait;
         tr3 = (if p3 then tr2 @ [Ret wait r3] else tr2);
         res = sys_sync_file_range cfg e fd offset nbytes flags tr
     in (p1 \<and> r1 < 0 \<longrightarrow> res = (r1, tr1 @ [Act (Fput (f_id f))])) \<and>
        (\<not> (p1 \<and> r1 < 0) \<and> p2 \<and> r2 < 0 \<longrightarrow> res = (r2, tr2 @ [Act (Fput (f_id f))])) \<and>
        (\<not> (p1 \<and> r1 < 0) \<and> \<not> (p2 \<and> r2 < 0) \<and> p3 \<longrightarrow>
           res = (r3, tr3 @ [Act (Fput (f_id f))])) \<and>
        (\<not> (p1 \<and> r1 < 0) \<and> \<not> (p2 \<and> r2 < 0) \<and> \<not> p3 \<longrightarrow>
           res = (if p2 then r2 else if p1 then r1 else 0, tr2 @ [Act (Fput (f_id f))])) \<and>
        (\<not> (p1 \<and> r1 < 0) \<and> \<not> (p2 \<and> r2 < 0) \<and> \<not> (p3 \<and> r3 < 0) \<longrightarrow>
           0 \<le> fst res \<and> ((\<forall>h c. ext_ret e h c \<le> 0) \<longrightarrow> fst res = 0))"
proof -
  define endbyte where "endbyte =
    (if nbytes = 0 \<or> sizeof_pgoff_t cfg = 4 \<and> pgoff_limit cfg \<le> offset + nbytes
     then LLONG_MAX else offset + nbytes - 1)"
  define ph where "ph = range_phases e m offset endbyte flags (tr @ [Act (Fget (f_id f))])"
  have res: "sys_sync_file_range cfg e fd offset nbytes flags tr =
      (fst ph, snd ph @ [Act (Fput (f_id f))])"
    using assms unfolding ph_def endbyte_def
    by (auto simp add: sys_sync_file_range_unfold Let_def)
  have ok: "(\<forall>h c. ext_ret e h c \<le> 0) \<Longrightarrow> 0 \<le> fst ph \<Longrightarrow> fst ph = 0"
    unfolding ph_def by (rule range_phases_success)
  have ph: "ph = (let wait = Filemap_fdatawait_range m offset endbyte;
          write = Filemap_fdatawrite_range m offset endbyte;
          p1 = (flags AND SYNC_FILE_RANGE_WAIT_BEFORE \<noteq> 0);
          p2 = (flags AND SYNC_FILE_RANGE_WRITE \<noteq> 0);
          p3 = (flags AND SYNC_FILE_RANGE_WAIT_AFTER \<noteq> 0);
          tr0 = tr @ [Act (Fget (f_id f))];
          r1 = ext_ret e tr0 wait;
          tr1 = (if p1 then tr0 @ [Ret wait r1] else tr0);
          r2 = ext_ret e tr1 write;
          tr2 = (if p2 then tr1 @ [Ret write r2] else tr1);
          r3 = ext_ret e tr2 wait;
          tr3 = (if p3 then tr2 @ [Ret wait r3] else tr2)
      in if p1 \<and> r1 < 0 then (r1, tr1)
         else if p2 \<and> r2 < 0 then (r2, tr2)
         else if p3 then (r3, tr3)
         else (if p2 then r2 else if p1 then r1 else 0, tr2))"
    unfolding ph_def range_phases_trace Let_def by simp
  note cs = ph Let_def
  show ?thesis
    unfolding res endbyte_def [symmetric] Let_def fst_conv
  proof (intro conjI impI, goal_cases)
    case 1
    then show ?case
      by (cases "flags AND SYNC_FILE_RANGE_WAIT_BEFORE = 0";
          cases "flags AND SYNC_FILE_RANGE_WRITE = 0";
          cases "flags AND SYNC_FILE_RANGE_WAIT_AFTER = 0") (simp_all add: cs)
  next
    case 2
    then show ?case
      by (cases "flags AND SYNC_FILE_RANGE_WAIT_BEFORE = 0";
          cases "flags AND SYNC_FILE_RANGE_WRITE = 0";
          cases "flags AND SYNC_FILE_RANGE_WAIT_AFTER = 0") (simp_all add: cs)
  next
    case 3
    then show ?case
      by (cases "flags AND SYNC_FILE_RANGE_WAIT_BEFORE = 0";
          cases "flags AND SYNC_FILE_RANGE_WRITE = 0";
          cases "flags AND SYNC_FILE_RANGE_WAIT_AFTER = 0") (simp_all add: cs)
  next
    case 4
    then show ?case
      by (cases "flags AND SYNC_FILE_RANGE_WAIT_BEFORE = 0";
          cases "flags AND SYNC_FILE_RANGE_WRITE = 0";
          cases "flags AND SYNC_FILE_RANGE_WAIT_AFTER = 0") (simp_all add: cs)
  next
    case 5
    then show ?case
      by (cases "flags AND SYNC_FILE_RANGE_WAIT_BEFORE = 0";
          cases "flags AND SYNC_FILE_RANGE_WRITE = 0";
          cases "flags AND SYNC_FILE_RANGE_WAIT_AFTER = 0") (simp_all add: cs)
  next
    case 6
    then have "0 \<le> fst ph"
      by (cases "flags AND SYNC_FILE_RANGE_WAIT_BEFORE = 0";
          cases "flags AND SYNC_FILE_RANGE_WRITE = 0";
          cases "flags AND SYNC_FILE_RANGE_WAIT_AFTER = 0") (simp_all add: cs)
    with 6 ok show ?case by blast
  qed
qed

text \<open>
  All three flags on the regular file. Where every phase succeeds the call returns 0 after
  the three calls; where the wait after fails its -5 is the result; and where the wait
  before fails the write and the wait after are not called.
\<close>

theorem sync_file_range_phases_witness:
  "\<not> fsync_suppressed cfg_arm env_ok \<and> (7 :: uint) AND NOT VALID_FLAGS = 0 \<and>
   \<not> pgoff_limit cfg_arm \<le> 0 \<and> fd_table env_ok 3 = Some file_reg \<and>
   seekable (i_mode file_reg) \<and> f_mapping file_reg = Some 20 \<and>
   (\<forall>h c. ext_ret env_ok h c \<le> 0) \<and>
   sys_sync_file_range cfg_arm env_ok 3 0 0 7 [] =
     (0, [Act (Fget 10),
          Ret (Filemap_fdatawait_range 20 0 0x7FFFFFFFFFFFFFFF) 0,
          Ret (Filemap_fdatawrite_range 20 0 0x7FFFFFFFFFFFFFFF) 0,
          Ret (Filemap_fdatawait_range 20 0 0x7FFFFFFFFFFFFFFF) 0,
          Act (Fput 10)]) \<and>
   sys_sync_file_range cfg_arm env_eio 3 0 0 7 [] =
     (- 5, [Act (Fget 10),
            Ret (Filemap_fdatawait_range 20 0 0x7FFFFFFFFFFFFFFF) 0,
            Ret (Filemap_fdatawrite_range 20 0 0x7FFFFFFFFFFFFFFF) 0,
            Ret (Filemap_fdatawait_range 20 0 0x7FFFFFFFFFFFFFFF) (- 5),
            Act (Fput 10)]) \<and>
   sys_sync_file_range cfg_arm env_eio 3 0 0 7 [Act Mutex_lock] =
     (- 5, [Act Mutex_lock, Act (Fget 10),
            Ret (Filemap_fdatawait_range 20 0 0x7FFFFFFFFFFFFFFF) (- 5),
            Act (Fput 10)])"
  using sync_file_range_phases [of cfg_arm env_ok 7 0 0 3 file_reg 20 "[]"]
    sync_file_range_phases [of cfg_arm env_eio 7 0 0 3 file_reg 20 "[]"]
    sync_file_range_phases [of cfg_arm env_eio 7 0 0 3 file_reg 20 "[Act Mutex_lock]"]
  by (simp add: example_defs constant_defs Let_def)

section \<open>fsync(), fdatasync() and the suppression of fsync\<close>

text \<open>
  \<open>do_fsync\<close> around a \<open>vfs_fsync_range\<close> that returns without calling anything: the
  file reference is taken and dropped, and the timing message is printed when the two clock
  readings are five seconds or more apart.
\<close>

lemma do_fsync_no_capability:
  assumes "fd_table e fd = Some f"
    and "\<And>tr'. vfs_fsync_range cfg e f 0 LLONG_MAX datasync tr' = (r, tr')"
  shows "do_fsync cfg e fd datasync tr =
     (r, tr @ [Act (Fget (f_id f)), Act (Fput (f_id f))] @
         (if 5000000000 \<le> ktime_get e (tr @ [Act (Fget (f_id f)), Act (Fput (f_id f))])
                            - ktime_get e (tr @ [Act (Fget (f_id f))])
          then [Act (Printk ''VFS: do_fsync takes too long'')] else []))"
  using assms by (simp add: do_fsync_def vfs_fsync_def act_def Let_def)

text \<open>
  C7. When the call is not suppressed, \<open>vfs_fsync_range\<close> on a file that has no
  operations, or whose operations have no \<open>fsync\<close>, returns \<open>-EINVAL\<close> and calls
  nothing; this negative value is the error the spec calls Unsupported, and it is the
  number that stands for an invalid argument too. \<open>fsync\<close> and \<open>fdatasync\<close> on a
  descriptor of such a file return it as well, having only taken and dropped the file
  reference (and printed the timing message when the clock says so).
\<close>

theorem fsync_without_capability:
  assumes "\<not> fsync_suppressed cfg e"
    and "f_op f = None \<or> (\<exists>ops. f_op f = Some ops \<and> \<not> fsync ops)"
  shows
    "vfs_fsync_range cfg e f start endb datasync tr = (- EINVAL, tr) \<and> - EINVAL < 0 \<and>
     (fd_table e fd = Some f \<longrightarrow>
        sys_fsync cfg e fd tr = do_fsync cfg e fd 0 tr \<and>
        sys_fdatasync cfg e fd tr = do_fsync cfg e fd 1 tr \<and>
        (\<forall>datasync. do_fsync cfg e fd datasync tr =
           (- EINVAL, tr @ [Act (Fget (f_id f)), Act (Fput (f_id f))] @
              (if 5000000000 \<le> ktime_get e (tr @ [Act (Fget (f_id f)), Act (Fput (f_id f))])
                                 - ktime_get e (tr @ [Act (Fget (f_id f))])
               then [Act (Printk ''VFS: do_fsync takes too long'')] else []))))"
proof -
  have 1: "vfs_fsync_range cfg e f start endb datasync tr = (- EINVAL, tr)"
    for start endb datasync tr
    using assms by (auto simp add: vfs_fsync_range_def)
  have 2: "do_fsync cfg e fd datasync tr =
           (- EINVAL, tr @ [Act (Fget (f_id f)), Act (Fput (f_id f))] @
              (if 5000000000 \<le> ktime_get e (tr @ [Act (Fget (f_id f)), Act (Fput (f_id f))])
                                 - ktime_get e (tr @ [Act (Fget (f_id f))])
               then [Act (Printk ''VFS: do_fsync takes too long'')] else []))"
    if "fd_table e fd = Some f" for datasync
    using that 1 by (rule do_fsync_no_capability)
  show ?thesis
    using assms(1) 1 2 by (simp add: sys_fsync_def sys_fdatasync_def EINVAL_def)
qed

text \<open>The FIFO behind descriptor 4, with fsync not suppressed.\<close>

theorem fsync_without_capability_witness:
  "\<not> fsync_suppressed cfg_arm env_ok \<and> f_op file_fifo = Some \<lparr>fsync = False\<rparr> \<and>
   fd_table env_ok 4 = Some file_fifo \<and>
   vfs_fsync_range cfg_arm env_ok file_fifo 0 LLONG_MAX 0 [] = (- 22, []) \<and>
   sys_fsync cfg_arm env_ok 4 [] = (- 22, [Act (Fget 11), Act (Fput 11)]) \<and>
   sys_fdatasync cfg_arm env_ok 4 [] = (- 22, [Act (Fget 11), Act (Fput 11)])"
  using fsync_without_capability [of cfg_arm env_ok file_fifo 0 LLONG_MAX 0 "[]" 4]
  by (simp add: example_defs constant_defs)

text \<open>\<open>sync\<close> and \<open>syncfs\<close> never read the two flags.\<close>

lemma ext_switch:
  "ext (e\<lparr>dyn_fsync_active := a, early_suspend_active := b\<rparr>) c tr = ext e c tr"
  by (simp add: ext_def)

lemma uu_sync_filesystem_switch:
  "uu_sync_filesystem (e\<lparr>dyn_fsync_active := a, early_suspend_active := b\<rparr>) sb wait tr =
   uu_sync_filesystem e sb wait tr"
  by (simp add: uu_sync_filesystem_def ext_switch cong: option.case_cong if_cong)

lemma sync_one_sb_switch:
  "sync_one_sb (e\<lparr>dyn_fsync_active := a, early_suspend_active := b\<rparr>) wait =
   sync_one_sb e wait"
  by (rule ext)+ (simp add: sync_one_sb_def uu_sync_filesystem_switch)

lemma do_sync_switch:
  "do_sync (e\<lparr>dyn_fsync_active := a, early_suspend_active := b\<rparr>) tr = do_sync e tr"
  by (simp add: do_sync_def sync_filesystems_def sync_one_sb_switch)

lemma sys_sync_switch:
  "sys_sync (e\<lparr>dyn_fsync_active := a, early_suspend_active := b\<rparr>) snap s = sys_sync e snap s"
  by (simp add: sys_sync_def do_sync_switch Let_def)

lemma sync_filesystem_switch:
  "sync_filesystem (e\<lparr>dyn_fsync_active := a, early_suspend_active := b\<rparr>) sb tr =
   sync_filesystem e sb tr"
  by (simp add: sync_filesystem_def uu_sync_filesystem_switch case_prod_beta cong: if_cong)

lemma sys_syncfs_switch:
  "sys_syncfs (e\<lparr>dyn_fsync_active := a, early_suspend_active := b\<rparr>) fd tr = sys_syncfs e fd tr"
  by (simp add: sys_syncfs_def sync_filesystem_switch cong: option.case_cong)

text \<open>
  C8, as the code has it. With fsync suppressed, \<open>sync\<close> still runs both passes over the
  volumes, \<open>syncfs\<close> still flushes its volume, and \<open>fdatasync\<close> on a descriptor that is
  not open returns \<open>-EBADF\<close>.
\<close>

theorem kill_switch_counterexample:
  "fsync_suppressed cfg_arm env_suppressed \<and>
   sys_sync env_suppressed 0 \<lparr>sync_seq = 0 :: 32 word, trace = []\<rparr> =
     (0, \<lparr>sync_seq = 2,
          trace = [Act Mutex_lock, Act (Sync_seq_write 1), Act Trace_sys_sync,
           Act Wakeup_flusher_threads, Ret (Quota_sync 1 (- 1) 0) 0,
           Act (Writeback_inodes_sb 1), Ret (Sync_fs 1 0) 0,
           Ret (Sync_blockdev (Some 7) 0) 0, Ret (Quota_sync 1 (- 1) 1) 0,
           Act (Sync_inodes_sb 1), Ret (Sync_fs 1 1) 0,
           Ret (Sync_blockdev (Some 7) 1) 0, Act Trace_sys_sync_done,
           Act (Sync_seq_write 2), Act Mutex_unlock]\<rparr>) \<and>
   sys_syncfs env_suppressed 3 [] =
     (0, [Act (Fget 10), Act (Down_read 1), Ret (Quota_sync 1 (- 1) 0) 0,
          Act (Writeback_inodes_sb 1), Ret (Sync_fs 1 0) 0,
          Ret (Sync_blockdev (Some 7) 0) 0, Ret (Quota_sync 1 (- 1) 1) 0,
          Act (Sync_inodes_sb 1), Ret (Sync_fs 1 1) 0,
          Ret (Sync_blockdev (Some 7) 1) 0, Act (Up_read 1), Act (Fput 10)]) \<and>
   sys_fdatasync cfg_arm env_suppressed 5 [] = (- EBADF, []) \<and> - EBADF \<noteq> (0 :: int)"
  by (simp add: sys_sync_def sys_syncfs_def sys_fdatasync_def do_fsync_def ULONG_CMP_GE_def
      flush_defs example_defs constant_defs Let_def)

text \<open>
  C8, amended. With \<open>CONFIG_DYNAMIC_FSYNC\<close> built in, \<open>dyn_fsync_active\<close> set and
  \<open>early_suspend_active\<close> clear: \<open>fsync\<close>, \<open>sync_file_range\<close> and \<open>sync_file_range2\<close>
  return 0 at once and call nothing. \<open>fdatasync\<close> has no test of its own: it resolves the
  descriptor, returns \<open>-EBADF\<close> when there is no such file, and otherwise returns 0
  without calling the file's \<open>fsync\<close> method, having taken and dropped the file reference
  (and printed the timing message when the clock says so). \<open>sync\<close> and \<open>syncfs\<close> have
  no such test: they do what they do with \<open>dyn_fsync_active\<close> clear.
\<close>

theorem kill_switch_entry_points:
  assumes "fsync_suppressed cfg e"
  shows "sys_fsync cfg e fd tr = (0, tr) \<and>
         sys_sync_file_range cfg e fd offset nbytes flags tr = (0, tr) \<and>
         sys_sync_file_range2 cfg e fd flags offset nbytes tr = (0, tr) \<and>
         (fd_table e fd = None \<longrightarrow> sys_fdatasync cfg e fd tr = (- EBADF, tr)) \<and>
         (\<forall>f. fd_table e fd = Some f \<longrightarrow>
            sys_fdatasync cfg e fd tr =
              (0, tr @ [Act (Fget (f_id f)), Act (Fput (f_id f))] @
                  (if 5000000000 \<le> ktime_get e (tr @ [Act (Fget (f_id f)), Act (Fput (f_id f))])
                                     - ktime_get e (tr @ [Act (Fget (f_id f))])
                   then [Act (Printk ''VFS: do_fsync takes too long'')] else []))) \<and>
         sys_sync (e\<lparr>dyn_fsync_active := False, early_suspend_active := b\<rparr>) snap s =
           sys_sync e snap s \<and>
         sys_syncfs (e\<lparr>dyn_fsync_active := False, early_suspend_active := b\<rparr>) fd tr =
           sys_syncfs e fd tr"
  using assms
  by (simp add: sys_fsync_def sys_sync_file_range_def sys_sync_file_range2_def sys_fdatasync_def
      do_fsync_def vfs_fsync_def vfs_fsync_range_def act_def Let_def sys_sync_switch
      sys_syncfs_switch)

text \<open>With fsync suppressed, on the regular file behind descriptor 3.\<close>

theorem kill_switch_entry_points_witness:
  "fsync_suppressed cfg_arm env_suppressed \<and>
   sys_fsync cfg_arm env_suppressed 3 [] = (0, []) \<and>
   sys_sync_file_range cfg_arm env_suppressed 3 0 4096 7 [] = (0, []) \<and>
   sys_sync_file_range2 cfg_arm env_suppressed 3 7 0 4096 [] = (0, []) \<and>
   fd_table env_suppressed 3 = Some file_reg \<and>
   sys_fdatasync cfg_arm env_suppressed 3 [] = (0, [Act (Fget 10), Act (Fput 10)])"
  using kill_switch_entry_points [of cfg_arm env_suppressed 3 "[]" 0 4096 7 False
      "0 :: 32 word" "\<lparr>sync_seq = 0, trace = []\<rparr>"]
  by (simp add: example_defs constant_defs)

end
